theory Spec2Isabelle
  imports Main
begin

section \<open>The store: two tables of rows\<close>

text \<open>
  \<^verbatim>\<open>src/app.py\<close> keeps its data in two SQLModel tables. A row of each table is a
  record with the columns of the class; the column \<^verbatim>\<open>id\<close> is the integer primary
  key, written \<open>a_id\<close> and \<open>p_id\<close> here because \<open>id\<close> is HOL's identity function.
  The field is \<^verbatim>\<open>Optional[int]\<close> in Python only for an object that has not been
  inserted yet; a row of a table always carries its key. Python's \<^verbatim>\<open>int\<close> is
  unbounded, so the integer columns are \<open>int\<close>.
\<close>

record Activity =
  a_id :: int
  name :: string
  description :: string
  schedule :: string
  max_participants :: int

record Participant =
  p_id :: int
  activity_id :: int
  email :: string

text \<open>
  A table is the list of its rows in the order a scan returns them (the order of
  insertion). The database is the pair of tables.
\<close>

record database =
  activities :: "Activity list"
  participants :: "Participant list"

definition empty_db :: database where
  "empty_db = \<lparr>activities = [], participants = []\<rparr>"

text \<open>
  An integer primary key that the program leaves unset is chosen by the store: 1 in an
  empty table, otherwise one more than the largest key present.
\<close>

definition next_rowid :: "int list \<Rightarrow> int" where
  "next_rowid ks = (case ks of [] \<Rightarrow> 1 | k # ks' \<Rightarrow> fold max ks' k + 1)"

definition insert_activity :: "database \<Rightarrow> string \<times> string \<times> string \<times> int \<Rightarrow> database" where
  "insert_activity d row =
     (case row of (nm, descr, sched, maxp) \<Rightarrow>
        d\<lparr>activities := activities d @
             [\<lparr>a_id = next_rowid (map a_id (activities d)), name = nm,
               description = descr, schedule = sched, max_participants = maxp\<rparr>]\<rparr>)"

definition insert_participant :: "database \<Rightarrow> int \<times> string \<Rightarrow> database" where
  "insert_participant d row =
     (case row of (aid, e) \<Rightarrow>
        d\<lparr>participants := participants d @
             [\<lparr>p_id = next_rowid (map p_id (participants d)), activity_id = aid,
               email = e\<rparr>]\<rparr>)"

text \<open>\<^verbatim>\<open>session.delete(participant)\<close> deletes by primary key.\<close>

definition delete_participant :: "database \<Rightarrow> Participant \<Rightarrow> database" where
  "delete_participant d p =
     d\<lparr>participants := filter (\<lambda>q. p_id q \<noteq> p_id p) (participants d)\<rparr>"

subsection \<open>The queries of the program\<close>

text \<open>\<^verbatim>\<open>select(Activity).where(Activity.name == activity_name)\<close>, then \<^verbatim>\<open>.first()\<close>.\<close>

definition select_activity_by_name :: "database \<Rightarrow> string \<Rightarrow> Activity option" where
  "select_activity_by_name d activity_name =
     find (\<lambda>a. name a = activity_name) (activities d)"

text \<open>\<^verbatim>\<open>select(Participant).where(Participant.activity_id == activity.id)\<close>, then \<^verbatim>\<open>.all()\<close>.\<close>

definition select_participants :: "database \<Rightarrow> int \<Rightarrow> Participant list" where
  "select_participants d aid = filter (\<lambda>p. activity_id p = aid) (participants d)"

text \<open>
  \<^verbatim>\<open>select(Participant).where(Participant.activity_id == activity.id,
  Participant.email == email)\<close>, then \<^verbatim>\<open>.first()\<close>.
\<close>

definition select_participant :: "database \<Rightarrow> int \<Rightarrow> string \<Rightarrow> Participant option" where
  "select_participant d aid e =
     find (\<lambda>p. activity_id p = aid \<and> email p = e) (participants d)"

subsection \<open>Sessions\<close>

text \<open>
  A session holds the database and the \<^verbatim>\<open>Participant\<close> objects handed to
  \<^verbatim>\<open>session.add\<close> that no flush has written yet, oldest first, each as its
  \<^verbatim>\<open>(activity_id, email)\<close>. \<^verbatim>\<open>session.commit()\<close> writes them in that order.
  A session that is left without a commit writes nothing.
\<close>

record session =
  store :: database
  pending :: "(int \<times> string) list"

definition open_session :: "database \<Rightarrow> session" where
  "open_session d = \<lparr>store = d, pending = []\<rparr>"

definition session_add :: "session \<Rightarrow> int \<times> string \<Rightarrow> session" where
  "session_add s row = s\<lparr>pending := pending s @ [row]\<rparr>"

definition session_commit :: "session \<Rightarrow> session" where
  "session_commit s = \<lparr>store = fold (\<lambda>row d. insert_participant d row) (pending s) (store s),
                        pending = []\<rparr>"

section \<open>The endpoints\<close>

text \<open>
  \<^verbatim>\<open>raise HTTPException(status_code=..., detail=...)\<close> is the left summand of the
  result; the JSON object an endpoint returns is the list of its key and value pairs.
  An endpoint is a function of the database that returns its result together with the
  database it leaves behind.
\<close>

record HTTPException =
  status_code :: int
  detail :: string

type_synonym response = "(string \<times> string) list"

definition signup_for_activity ::
  "database \<Rightarrow> string \<Rightarrow> string \<Rightarrow> (HTTPException + response) \<times> database" where
  "signup_for_activity d activity_name email_arg =
     (case select_activity_by_name d activity_name of
        None \<Rightarrow> (Inl \<lparr>status_code = 404, detail = ''Activity not found''\<rparr>, d)
      | Some activity \<Rightarrow>
          (let ps = select_participants d (a_id activity) in
           if email_arg \<in> set (map email ps)
           then (Inl \<lparr>status_code = 400, detail = ''Student is already signed up''\<rparr>, d)
           else if int (length ps) \<ge> max_participants activity
           then (Inl \<lparr>status_code = 400, detail = ''Activity is full''\<rparr>, d)
           else (Inr [(''message'', ''Signed up '' @ email_arg @ '' for '' @ activity_name)],
                 store (session_commit
                   (session_add (open_session d) (a_id activity, email_arg))))))"

definition unregister_from_activity ::
  "database \<Rightarrow> string \<Rightarrow> string \<Rightarrow> (HTTPException + response) \<times> database" where
  "unregister_from_activity d activity_name email_arg =
     (case select_activity_by_name d activity_name of
        None \<Rightarrow> (Inl \<lparr>status_code = 404, detail = ''Activity not found''\<rparr>, d)
      | Some activity \<Rightarrow>
          (case select_participant d (a_id activity) email_arg of
             None \<Rightarrow>
               (Inl \<lparr>status_code = 400,
                     detail = ''Student is not signed up for this activity''\<rparr>, d)
           | Some participant \<Rightarrow>
               (Inr [(''message'', ''Unregistered '' @ email_arg @ '' from '' @ activity_name)],
                delete_participant d participant)))"

section \<open>The seeder\<close>

text \<open>
  The dictionary \<^verbatim>\<open>initial\<close> in the order of its items: name, description,
  schedule, max_participants and participants of each entry.
\<close>

definition initial :: "(string \<times> string \<times> string \<times> int \<times> string list) list" where
  "initial =
    [(''Chess Club'', ''Learn strategies and compete in chess tournaments'',
      ''Fridays, 3:30 PM - 5:00 PM'', 12,
      [''michael@mergington.edu'', ''daniel@mergington.edu'']),
     (''Programming Class'', ''Learn programming fundamentals and build software projects'',
      ''Tuesdays and Thursdays, 3:30 PM - 4:30 PM'', 20,
      [''emma@mergington.edu'', ''sophia@mergington.edu'']),
     (''Gym Class'', ''Physical education and sports activities'',
      ''Mondays, Wednesdays, Fridays, 2:00 PM - 3:00 PM'', 30,
      [''john@mergington.edu'', ''olivia@mergington.edu'']),
     (''Soccer Team'', ''Join the school soccer team and compete in matches'',
      ''Tuesdays and Thursdays, 4:00 PM - 5:30 PM'', 22,
      [''liam@mergington.edu'', ''noah@mergington.edu'']),
     (''Basketball Team'', ''Practice and play basketball with the school team'',
      ''Wednesdays and Fridays, 3:30 PM - 5:00 PM'', 15,
      [''ava@mergington.edu'', ''mia@mergington.edu'']),
     (''Art Club'', ''Explore your creativity through painting and drawing'',
      ''Thursdays, 3:30 PM - 5:00 PM'', 15,
      [''amelia@mergington.edu'', ''harper@mergington.edu'']),
     (''Drama Club'', ''Act, direct, and produce plays and performances'',
      ''Mondays and Wednesdays, 4:00 PM - 5:30 PM'', 20,
      [''ella@mergington.edu'', ''scarlett@mergington.edu'']),
     (''Math Club'', ''Solve challenging problems and participate in math competitions'',
      ''Tuesdays, 3:30 PM - 4:30 PM'', 10,
      [''james@mergington.edu'', ''benjamin@mergington.edu'']),
     (''Debate Team'', ''Develop public speaking and argumentation skills'',
      ''Fridays, 4:00 PM - 5:30 PM'', 12,
      [''charlotte@mergington.edu'', ''henry@mergington.edu''])]"

text \<open>
  One round of the loop over \<^verbatim>\<open>initial.items()\<close>. \<^verbatim>\<open>session.add(activity)\<close> and
  \<^verbatim>\<open>session.commit()\<close> insert the activity and flush the participants the round
  before left pending; \<^verbatim>\<open>session.refresh(activity)\<close> reads the key the store gave the
  new row, which is the key of the last row of the table; the inner loop adds one
  \<^verbatim>\<open>Participant\<close> per email to the session.
\<close>

definition seed_entry ::
  "string \<times> string \<times> string \<times> int \<times> string list \<Rightarrow> session \<Rightarrow> session" where
  "seed_entry entry s =
     (case entry of (nm, descr, sched, maxp, emails) \<Rightarrow>
        (let s1 = session_commit (s\<lparr>store := insert_activity (store s) (nm, descr, sched, maxp)\<rparr>);
             new_id = a_id (last (activities (store s1)))
         in fold (\<lambda>e s'. session_add s' (new_id, e)) emails s1))"

text \<open>
  \<^verbatim>\<open>seed_initial_activities\<close>: nothing is written when the \<^verbatim>\<open>Activity\<close> table has a
  row; otherwise the loop runs over the entries and a last commit flushes the session.
\<close>

definition seed_initial_activities :: "database \<Rightarrow> database" where
  "seed_initial_activities d =
     (case activities d of
        existing # _ \<Rightarrow> d
      | [] \<Rightarrow> store (session_commit (fold seed_entry initial (open_session d))))"

section \<open>Reachable states\<close>

text \<open>
  The states the running service can be in: the seeder runs on the empty store at
  startup, and every request after that is a signup or an unregister, with any
  arguments, that succeeds or fails.
\<close>

inductive reachable :: "database \<Rightarrow> bool" where
  seeded: "reachable (seed_initial_activities empty_db)"
| signup: "reachable d \<Longrightarrow> reachable (snd (signup_for_activity d activity_name email_arg))"
| unregister:
    "reachable d \<Longrightarrow> reachable (snd (unregister_from_activity d activity_name email_arg))"

section \<open>Facts about the store\<close>

text \<open>A key the store chooses is above every key of the table, so it is new.\<close>

lemma fold_max_ge_init: "(x::int) \<le> fold max xs x"
proof (induction xs arbitrary: x)
  case Nil
  show ?case by simp
next
  case (Cons y ys)
  have "x \<le> max y x" by simp
  also have "\<dots> \<le> fold max ys (max y x)" by (rule Cons.IH)
  finally show ?case by simp
qed

lemma fold_max_ge_member: "k \<in> set xs \<Longrightarrow> (k::int) \<le> fold max xs x"
proof (induction xs arbitrary: x)
  case Nil
  then show ?case by simp
next
  case (Cons y ys)
  show ?case
  proof (cases "k = y")
    case True
    have "y \<le> max y x" by simp
    also have "\<dots> \<le> fold max ys (max y x)" by (rule fold_max_ge_init)
    finally show ?thesis using True by simp
  next
    case False
    with Cons.prems have "k \<in> set ys" by simp
    then show ?thesis by (simp add: Cons.IH)
  qed
qed

lemma next_rowid_above: "k \<in> set ks \<Longrightarrow> k < next_rowid ks"
proof (cases ks)
  case Nil
  assume "k \<in> set ks"
  with Nil show ?thesis by simp
next
  case (Cons x xs)
  assume "k \<in> set ks"
  with Cons have "k = x \<or> k \<in> set xs" by simp
  then have "k \<le> fold max xs x"
    using fold_max_ge_init [of x xs] fold_max_ge_member [of k xs x] by auto
  with Cons show ?thesis by (simp add: next_rowid_def)
qed

lemma next_rowid_fresh: "next_rowid ks \<notin> set ks"
  using next_rowid_above [of "next_rowid ks" ks] by auto

text \<open>A session with one added object commits one insertion.\<close>

lemma commit_one:
  "store (session_commit (session_add (open_session d) row)) = insert_participant d row"
  by (simp add: session_commit_def session_add_def open_session_def)

text \<open>What the three queries return.\<close>

lemma select_activity_Some:
  "select_activity_by_name d n = Some a \<Longrightarrow> a \<in> set (activities d) \<and> name a = n"
  by (auto simp: select_activity_by_name_def find_Some_iff)

lemma select_participant_None:
  "select_participant d aid e = None \<longleftrightarrow> e \<notin> set (map email (select_participants d aid))"
  by (auto simp: select_participant_def select_participants_def find_None_iff)

lemma select_participant_Some:
  "select_participant d aid e = Some p \<Longrightarrow>
     p \<in> set (participants d) \<and> activity_id p = aid \<and> email p = e"
  by (auto simp: select_participant_def find_Some_iff)

lemma find_snoc:
  "find P (xs @ [y]) = (case find P xs of None \<Rightarrow> (if P y then Some y else None) | Some x \<Rightarrow> Some x)"
  by (induction xs) simp_all

text \<open>
  Deleting by key removes the row itself when the keys of the table are distinct, and
  never lengthens the answer of a query.
\<close>

lemma filter_other_keys:
  "distinct (map p_id ps) \<Longrightarrow> p \<in> set ps \<Longrightarrow>
     filter (\<lambda>q. p_id q \<noteq> p_id p) ps = remove1 p ps"
proof (induction ps)
  case Nil
  then show ?case by simp
next
  case (Cons x xs)
  show ?case
  proof (cases "x = p")
    case True
    from Cons.prems(1) True have "p_id p \<notin> p_id ` set xs" by simp
    then have "\<forall>q\<in>set xs. p_id q \<noteq> p_id p" by (metis imageI)
    then have "filter (\<lambda>q. p_id q \<noteq> p_id p) xs = xs" by (simp add: filter_id_conv)
    with True show ?thesis by simp
  next
    case False
    with Cons.prems have "p \<in> set xs" and "p_id x \<noteq> p_id p" by auto
    with Cons show ?thesis using False by simp
  qed
qed

lemma delete_participant_count:
  "length (select_participants (delete_participant d p) k) \<le> length (select_participants d k)"
proof -
  have "length (filter P (filter Q xs)) \<le> length (filter P xs)"
    for P Q :: "Participant \<Rightarrow> bool" and xs
    by (induction xs) auto
  then show ?thesis
    by (simp add: select_participants_def delete_participant_def)
qed

section \<open>Facts about the endpoints\<close>

text \<open>
  The successful signup, and the two shapes of the database a request leaves behind:
  the one it found, or that one with a row added (signup) or with a key deleted
  (unregister). Neither endpoint writes to the \<^verbatim>\<open>Activity\<close> table.
\<close>

lemma signup_success:
  assumes "select_activity_by_name d n = Some a"
    and "e \<notin> set (map email (select_participants d (a_id a)))"
    and "int (length (select_participants d (a_id a))) < max_participants a"
  shows "signup_for_activity d n e =
           (Inr [(''message'', ''Signed up '' @ e @ '' for '' @ n)],
            d\<lparr>participants := participants d @
                 [\<lparr>p_id = next_rowid (map p_id (participants d)),
                   activity_id = a_id a, email = e\<rparr>]\<rparr>)"
  using assms by (simp add: signup_for_activity_def commit_one insert_participant_def)

lemma signup_snd:
  "snd (signup_for_activity d n e) = d \<or>
   (\<exists>a. select_activity_by_name d n = Some a \<and>
        e \<notin> set (map email (select_participants d (a_id a))) \<and>
        int (length (select_participants d (a_id a))) < max_participants a \<and>
        snd (signup_for_activity d n e) =
          d\<lparr>participants := participants d @
               [\<lparr>p_id = next_rowid (map p_id (participants d)),
                 activity_id = a_id a, email = e\<rparr>]\<rparr>)"
proof (cases "select_activity_by_name d n")
  case None
  then show ?thesis by (simp add: signup_for_activity_def)
next
  case (Some a)
  show ?thesis
  proof (cases "e \<notin> set (map email (select_participants d (a_id a))) \<and>
                int (length (select_participants d (a_id a))) < max_participants a")
    case True
    with Some show ?thesis by (simp add: signup_success)
  next
    case False
    with Some have "snd (signup_for_activity d n e) = d"
      by (auto simp: signup_for_activity_def Let_def)
    then show ?thesis ..
  qed
qed

lemma unregister_snd:
  "snd (unregister_from_activity d n e) = d \<or>
   (\<exists>p. snd (unregister_from_activity d n e) = delete_participant d p)"
  by (auto simp: unregister_from_activity_def split: option.splits)

lemma signup_activities [simp]: "activities (snd (signup_for_activity d n e)) = activities d"
  using signup_snd [of d n e] by auto

lemma unregister_activities [simp]:
  "activities (snd (unregister_from_activity d n e)) = activities d"
  using unregister_snd [of d n e] by (auto simp: delete_participant_def)

lemma signup_keeps_capacity:
  assumes ids: "distinct (map a_id (activities d))"
    and cap: "\<forall>a\<in>set (activities d).
                int (length (select_participants d (a_id a))) \<le> max_participants a"
    and b: "b \<in> set (activities d)"
  shows "int (length (select_participants (snd (signup_for_activity d n e)) (a_id b)))
           \<le> max_participants b"
proof -
  from signup_snd [of d n e] show ?thesis
  proof
    assume "snd (signup_for_activity d n e) = d"
    with cap b show ?thesis by simp
  next
    assume "\<exists>a. select_activity_by_name d n = Some a \<and>
        e \<notin> set (map email (select_participants d (a_id a))) \<and>
        int (length (select_participants d (a_id a))) < max_participants a \<and>
        snd (signup_for_activity d n e) =
          d\<lparr>participants := participants d @
               [\<lparr>p_id = next_rowid (map p_id (participants d)),
                 activity_id = a_id a, email = e\<rparr>]\<rparr>"
    then obtain a where a: "select_activity_by_name d n = Some a"
      and room: "int (length (select_participants d (a_id a))) < max_participants a"
      and d': "snd (signup_for_activity d n e) =
          d\<lparr>participants := participants d @
               [\<lparr>p_id = next_rowid (map p_id (participants d)),
                 activity_id = a_id a, email = e\<rparr>]\<rparr>"
      by blast
    show ?thesis
    proof (cases "a_id a = a_id b")
      case True
      from a have "a \<in> set (activities d)" by (simp add: select_activity_Some)
      moreover from ids have "inj_on a_id (set (activities d))" by (simp add: distinct_map)
      ultimately have "a = b" using b True by (auto dest: inj_onD)
      with room show ?thesis by (simp add: d' select_participants_def)
    next
      case False
      with cap b show ?thesis by (simp add: d' select_participants_def)
    qed
  qed
qed

section \<open>The seeded database\<close>

text \<open>The seeder on the empty store, evaluated: nine activities and eighteen participants.\<close>

lemma seeded_db:
  "seed_initial_activities empty_db =
    \<lparr>activities =
      [\<lparr>a_id = 1, name = ''Chess Club'',
        description = ''Learn strategies and compete in chess tournaments'',
        schedule = ''Fridays, 3:30 PM - 5:00 PM'', max_participants = 12\<rparr>,
       \<lparr>a_id = 2, name = ''Programming Class'',
        description = ''Learn programming fundamentals and build software projects'',
        schedule = ''Tuesdays and Thursdays, 3:30 PM - 4:30 PM'', max_participants = 20\<rparr>,
       \<lparr>a_id = 3, name = ''Gym Class'',
        description = ''Physical education and sports activities'',
        schedule = ''Mondays, Wednesdays, Fridays, 2:00 PM - 3:00 PM'', max_participants = 30\<rparr>,
       \<lparr>a_id = 4, name = ''Soccer Team'',
        description = ''Join the school soccer team and compete in matches'',
        schedule = ''Tuesdays and Thursdays, 4:00 PM - 5:30 PM'', max_participants = 22\<rparr>,
       \<lparr>a_id = 5, name = ''Basketball Team'',
        description = ''Practice and play basketball with the school team'',
        schedule = ''Wednesdays and Fridays, 3:30 PM - 5:00 PM'', max_participants = 15\<rparr>,
       \<lparr>a_id = 6, name = ''Art Club'',
        description = ''Explore your creativity through painting and drawing'',
        schedule = ''Thursdays, 3:30 PM - 5:00 PM'', max_participants = 15\<rparr>,
       \<lparr>a_id = 7, name = ''Drama Club'',
        description = ''Act, direct, and produce plays and performances'',
        schedule = ''Mondays and Wednesdays, 4:00 PM - 5:30 PM'', max_participants = 20\<rparr>,
       \<lparr>a_id = 8, name = ''Math Club'',
        description = ''Solve challenging problems and participate in math competitions'',
        schedule = ''Tuesdays, 3:30 PM - 4:30 PM'', max_participants = 10\<rparr>,
       \<lparr>a_id = 9, name = ''Debate Team'',
        description = ''Develop public speaking and argumentation skills'',
        schedule = ''Fridays, 4:00 PM - 5:30 PM'', max_participants = 12\<rparr>],
     participants =
      [\<lparr>p_id = 1, activity_id = 1, email = ''michael@mergington.edu''\<rparr>,
       \<lparr>p_id = 2, activity_id = 1, email = ''daniel@mergington.edu''\<rparr>,
       \<lparr>p_id = 3, activity_id = 2, email = ''emma@mergington.edu''\<rparr>,
       \<lparr>p_id = 4, activity_id = 2, email = ''sophia@mergington.edu''\<rparr>,
       \<lparr>p_id = 5, activity_id = 3, email = ''john@mergington.edu''\<rparr>,
       \<lparr>p_id = 6, activity_id = 3, email = ''olivia@mergington.edu''\<rparr>,
       \<lparr>p_id = 7, activity_id = 4, email = ''liam@mergington.edu''\<rparr>,
       \<lparr>p_id = 8, activity_id = 4, email = ''noah@mergington.edu''\<rparr>,
       \<lparr>p_id = 9, activity_id = 5, email = ''ava@mergington.edu''\<rparr>,
       \<lparr>p_id = 10, activity_id = 5, email = ''mia@mergington.edu''\<rparr>,
       \<lparr>p_id = 11, activity_id = 6, email = ''amelia@mergington.edu''\<rparr>,
       \<lparr>p_id = 12, activity_id = 6, email = ''harper@mergington.edu''\<rparr>,
       \<lparr>p_id = 13, activity_id = 7, email = ''ella@mergington.edu''\<rparr>,
       \<lparr>p_id = 14, activity_id = 7, email = ''scarlett@mergington.edu''\<rparr>,
       \<lparr>p_id = 15, activity_id = 8, email = ''james@mergington.edu''\<rparr>,
       \<lparr>p_id = 16, activity_id = 8, email = ''benjamin@mergington.edu''\<rparr>,
       \<lparr>p_id = 17, activity_id = 9, email = ''charlotte@mergington.edu''\<rparr>,
       \<lparr>p_id = 18, activity_id = 9, email = ''henry@mergington.edu''\<rparr>]\<rparr>"
  by (simp add: seed_initial_activities_def empty_db_def initial_def seed_entry_def
      open_session_def session_commit_def session_add_def insert_activity_def
      insert_participant_def next_rowid_def)

lemma seeded_distinct_ids:
  "distinct (map a_id (activities (seed_initial_activities empty_db)))"
  by (simp add: seeded_db)

lemma seeded_within_capacity:
  "\<forall>a\<in>set (activities (seed_initial_activities empty_db)).
     int (length (select_participants (seed_initial_activities empty_db) (a_id a)))
       \<le> max_participants a"
  by (simp add: seeded_db select_participants_def)

lemma seeded_no_duplicates:
  "distinct (map (\<lambda>p. (activity_id p, email p))
     (participants (seed_initial_activities empty_db)))"
  by (simp add: seeded_db)

lemma seeded_chess_club:
  "select_activity_by_name (seed_initial_activities empty_db) ''Chess Club'' =
     Some (hd (activities (seed_initial_activities empty_db)))"
  by (simp add: seeded_db select_activity_by_name_def)

lemma seeded_chess_club_key:
  "a_id (hd (activities (seed_initial_activities empty_db))) = 1"
  "max_participants (hd (activities (seed_initial_activities empty_db))) = 12"
  by (simp_all add: seeded_db)

lemma seeded_chess_club_emails:
  "map email (select_participants (seed_initial_activities empty_db) 1) =
     [''michael@mergington.edu'', ''daniel@mergington.edu'']"
  by (simp add: seeded_db select_participants_def)

lemma seeded_chess_club_count:
  "length (select_participants (seed_initial_activities empty_db) 1) = 2"
  using arg_cong [OF seeded_chess_club_emails, of length] by simp

lemma reachable_activities:
  "reachable d \<Longrightarrow> activities d = activities (seed_initial_activities empty_db)"
  by (induction rule: reachable.induct) simp_all

text \<open>
  The keys of the \<^verbatim>\<open>Participant\<close> table are distinct in every reachable state, as
  its primary key demands: a new row takes a key above all others.
\<close>

lemma reachable_distinct_keys:
  "reachable d \<Longrightarrow> distinct (map p_id (participants d))"
proof (induction rule: reachable.induct)
  case seeded
  show ?case by (simp add: seeded_db)
next
  case (signup d activity_name email_arg)
  from signup_snd [of d activity_name email_arg] signup.IH
    next_rowid_fresh [of "map p_id (participants d)"]
  show ?case by auto
next
  case (unregister d activity_name email_arg)
  from unregister_snd [of d activity_name email_arg] unregister.IH show ?case
    by (auto simp: delete_participant_def distinct_map_filter)
qed

section \<open>Claims\<close>

text \<open>
  C1. In every state reachable from the seeded database by signups and unregisters,
  the number of participants of every activity (the rows of \<^verbatim>\<open>Participant\<close> that
  carry its key) is at most its \<^verbatim>\<open>max_participants\<close>.
\<close>

theorem capacity_never_exceeded:
  "reachable d \<Longrightarrow>
     \<forall>a\<in>set (activities d).
       int (length (select_participants d (a_id a))) \<le> max_participants a"
proof (induction rule: reachable.induct)
  case seeded
  show ?case by (rule seeded_within_capacity)
next
  case (signup d activity_name email_arg)
  from signup.hyps have "distinct (map a_id (activities d))"
    by (simp add: reachable_activities seeded_distinct_ids)
  with signup.IH show ?case
    by (simp add: signup_keeps_capacity)
next
  case (unregister d activity_name email_arg)
  show ?case
  proof
    fix a
    assume "a \<in> set (activities (snd (unregister_from_activity d activity_name email_arg)))"
    then have a: "a \<in> set (activities d)" by simp
    from unregister_snd [of d activity_name email_arg]
    have "length (select_participants
            (snd (unregister_from_activity d activity_name email_arg)) (a_id a))
          \<le> length (select_participants d (a_id a))"
      by (auto simp: delete_participant_count)
    with unregister.IH a
    show "int (length (select_participants
            (snd (unregister_from_activity d activity_name email_arg)) (a_id a)))
          \<le> max_participants a"
      by fastforce
  qed
qed

theorem capacity_never_exceeded_witness:
  "reachable (snd (signup_for_activity (seed_initial_activities empty_db) ''Chess Club''
      ''zoe@mergington.edu'')) \<and>
   length (select_participants
     (snd (signup_for_activity (seed_initial_activities empty_db) ''Chess Club''
        ''zoe@mergington.edu'')) 1) = 3 \<and>
   int (length (select_participants
     (snd (signup_for_activity (seed_initial_activities empty_db) ''Chess Club''
        ''zoe@mergington.edu'')) 1)) \<le> 12"
proof -
  let ?d = "snd (signup_for_activity (seed_initial_activities empty_db) ''Chess Club''
      ''zoe@mergington.edu'')"
  have r: "reachable ?d" by (intro reachable.intros)
  have m: "hd (activities (seed_initial_activities empty_db)) \<in> set (activities ?d)"
    by (simp add: seeded_db)
  have d: "?d = (seed_initial_activities empty_db)
      \<lparr>participants := participants (seed_initial_activities empty_db) @
         [\<lparr>p_id = next_rowid (map p_id (participants (seed_initial_activities empty_db))),
           activity_id = 1, email = ''zoe@mergington.edu''\<rparr>]\<rparr>"
    by (simp add: signup_success [OF seeded_chess_club] seeded_chess_club_key
        seeded_chess_club_emails seeded_chess_club_count)
  have n: "length (select_participants ?d 1) = 3"
    unfolding d by (simp add: select_participants_def seeded_db)
  from capacity_never_exceeded [OF r] m
  have "int (length (select_participants ?d
          (a_id (hd (activities (seed_initial_activities empty_db))))))
        \<le> max_participants (hd (activities (seed_initial_activities empty_db)))"
    by (rule bspec)
  with r n show ?thesis by (simp add: seeded_chess_club_key)
qed

text \<open>
  C2. In every state reachable from the seeded database by signups and unregisters,
  no pair of an activity key and an email stands in two rows of \<^verbatim>\<open>Participant\<close>.
\<close>

theorem no_duplicate_signup:
  "reachable d \<Longrightarrow> distinct (map (\<lambda>p. (activity_id p, email p)) (participants d))"
proof (induction rule: reachable.induct)
  case seeded
  show ?case by (rule seeded_no_duplicates)
next
  case (signup d activity_name email_arg)
  from signup_snd [of d activity_name email_arg] show ?case
  proof (elim disjE exE conjE)
    assume "snd (signup_for_activity d activity_name email_arg) = d"
    with signup.IH show ?thesis by simp
  next
    fix a
    assume fresh: "email_arg \<notin> set (map email (select_participants d (a_id a)))"
      and d': "snd (signup_for_activity d activity_name email_arg) =
          d\<lparr>participants := participants d @
               [\<lparr>p_id = next_rowid (map p_id (participants d)),
                 activity_id = a_id a, email = email_arg\<rparr>]\<rparr>"
    from fresh have "(a_id a, email_arg) \<notin>
        set (map (\<lambda>p. (activity_id p, email p)) (participants d))"
      by (auto simp: select_participants_def)
    with signup.IH show ?thesis by (simp add: d')
  qed
next
  case (unregister d activity_name email_arg)
  from unregister_snd [of d activity_name email_arg] unregister.IH show ?case
    by (auto simp: delete_participant_def distinct_map_filter)
qed

theorem no_duplicate_signup_witness:
  "reachable (snd (unregister_from_activity
      (snd (signup_for_activity (seed_initial_activities empty_db) ''Math Club''
         ''zoe@mergington.edu''))
      ''Chess Club'' ''daniel@mergington.edu'')) \<and>
   distinct (map (\<lambda>p. (activity_id p, email p))
     (participants (snd (unregister_from_activity
        (snd (signup_for_activity (seed_initial_activities empty_db) ''Math Club''
           ''zoe@mergington.edu''))
        ''Chess Club'' ''daniel@mergington.edu''))))"
proof -
  have r: "reachable (snd (unregister_from_activity
      (snd (signup_for_activity (seed_initial_activities empty_db) ''Math Club''
         ''zoe@mergington.edu''))
      ''Chess Club'' ''daniel@mergington.edu''))"
    by (intro reachable.intros)
  from r no_duplicate_signup [OF r] show ?thesis by (rule conjI)
qed

text \<open>
  C3. When no activity has the given name, signup and unregister both raise the
  HTTP 404 exception "Activity not found" and leave the database as it was.
\<close>

theorem unknown_activity_not_found:
  "select_activity_by_name d activity_name = None \<Longrightarrow>
     signup_for_activity d activity_name email_arg =
       (Inl \<lparr>status_code = 404, detail = ''Activity not found''\<rparr>, d) \<and>
     unregister_from_activity d activity_name email_arg =
       (Inl \<lparr>status_code = 404, detail = ''Activity not found''\<rparr>, d)"
  by (simp add: signup_for_activity_def unregister_from_activity_def)

theorem unknown_activity_not_found_witness:
  "select_activity_by_name (seed_initial_activities empty_db) ''Knitting Circle'' = None \<and>
   signup_for_activity (seed_initial_activities empty_db) ''Knitting Circle''
       ''zoe@mergington.edu'' =
     (Inl \<lparr>status_code = 404, detail = ''Activity not found''\<rparr>,
      seed_initial_activities empty_db) \<and>
   unregister_from_activity (seed_initial_activities empty_db) ''Knitting Circle''
       ''zoe@mergington.edu'' =
     (Inl \<lparr>status_code = 404, detail = ''Activity not found''\<rparr>,
      seed_initial_activities empty_db)"
proof -
  have h: "select_activity_by_name (seed_initial_activities empty_db) ''Knitting Circle'' = None"
    by (simp add: seeded_db select_activity_by_name_def)
  from h unknown_activity_not_found [OF h, of "''zoe@mergington.edu''"] show ?thesis
    by (rule conjI)
qed

text \<open>
  C4. When the named activity exists and the email is already among the emails of its
  participants, signup raises the HTTP 400 exception "Student is already signed up"
  and leaves the database as it was.
\<close>

theorem duplicate_signup_conflict:
  assumes "select_activity_by_name d activity_name = Some activity"
    and "email_arg \<in> set (map email (select_participants d (a_id activity)))"
  shows "signup_for_activity d activity_name email_arg =
           (Inl \<lparr>status_code = 400, detail = ''Student is already signed up''\<rparr>, d)"
  using assms by (simp add: signup_for_activity_def)

theorem duplicate_signup_conflict_witness:
  "select_activity_by_name (seed_initial_activities empty_db) ''Chess Club'' =
     Some (hd (activities (seed_initial_activities empty_db))) \<and>
   ''michael@mergington.edu'' \<in>
     set (map email (select_participants (seed_initial_activities empty_db) 1)) \<and>
   signup_for_activity (seed_initial_activities empty_db) ''Chess Club''
       ''michael@mergington.edu'' =
     (Inl \<lparr>status_code = 400, detail = ''Student is already signed up''\<rparr>,
      seed_initial_activities empty_db)"
proof -
  have h: "''michael@mergington.edu'' \<in>
     set (map email (select_participants (seed_initial_activities empty_db)
       (a_id (hd (activities (seed_initial_activities empty_db))))))"
    by (simp add: seeded_chess_club_key seeded_chess_club_emails)
  from duplicate_signup_conflict [OF seeded_chess_club h] h seeded_chess_club
  show ?thesis by (simp add: seeded_chess_club_key)
qed

text \<open>
  C5. When the named activity exists, the email is not among its participants and the
  number of its participants is at least \<^verbatim>\<open>max_participants\<close>, signup raises the
  HTTP 400 exception "Activity is full" and leaves the database as it was.
\<close>

theorem full_activity_rejected:
  assumes "select_activity_by_name d activity_name = Some activity"
    and "email_arg \<notin> set (map email (select_participants d (a_id activity)))"
    and "int (length (select_participants d (a_id activity))) \<ge> max_participants activity"
  shows "signup_for_activity d activity_name email_arg =
           (Inl \<lparr>status_code = 400, detail = ''Activity is full''\<rparr>, d)"
  using assms by (simp add: signup_for_activity_def)

theorem full_activity_rejected_witness:
  "select_activity_by_name
     (insert_participant (insert_activity empty_db (''Duet'', ''Two voices'', ''Mondays'', 1))
        (1, ''ava@mergington.edu''))
     ''Duet'' =
     Some \<lparr>a_id = 1, name = ''Duet'', description = ''Two voices'', schedule = ''Mondays'',
           max_participants = 1\<rparr> \<and>
   signup_for_activity
     (insert_participant (insert_activity empty_db (''Duet'', ''Two voices'', ''Mondays'', 1))
        (1, ''ava@mergington.edu''))
     ''Duet'' ''mia@mergington.edu'' =
     (Inl \<lparr>status_code = 400, detail = ''Activity is full''\<rparr>,
      insert_participant (insert_activity empty_db (''Duet'', ''Two voices'', ''Mondays'', 1))
        (1, ''ava@mergington.edu''))"
proof -
  let ?d = "insert_participant
      (insert_activity empty_db (''Duet'', ''Two voices'', ''Mondays'', 1))
      (1, ''ava@mergington.edu'')"
  let ?a = "\<lparr>a_id = 1, name = ''Duet'', description = ''Two voices'', schedule = ''Mondays'',
           max_participants = 1\<rparr>"
  have d: "?d = \<lparr>activities = [?a],
                participants = [\<lparr>p_id = 1, activity_id = 1, email = ''ava@mergington.edu''\<rparr>]\<rparr>"
    by (simp add: insert_participant_def insert_activity_def empty_db_def next_rowid_def)
  have a: "select_activity_by_name ?d ''Duet'' = Some ?a"
    by (simp add: d select_activity_by_name_def)
  have e: "''mia@mergington.edu'' \<notin> set (map email (select_participants ?d (a_id ?a)))"
    by (simp add: d select_participants_def)
  have f: "int (length (select_participants ?d (a_id ?a))) \<ge> max_participants ?a"
    by (simp add: d select_participants_def)
  from full_activity_rejected [OF a e f] a show ?thesis by (rule conjI [rotated])
qed

text \<open>
  C6. When the named activity exists and no row of \<^verbatim>\<open>Participant\<close> matches the
  activity and the email, unregister fails and leaves the database as it was. The
  failure is the exception for an unknown signup, "Student is not signed up for this
  activity", which the endpoint raises with HTTP status 400.
\<close>

theorem unregister_not_signed_up:
  assumes "select_activity_by_name d activity_name = Some activity"
    and "email_arg \<notin> set (map email (select_participants d (a_id activity)))"
  shows "unregister_from_activity d activity_name email_arg =
           (Inl \<lparr>status_code = 400,
                 detail = ''Student is not signed up for this activity''\<rparr>, d)"
proof -
  from assms(2) have "select_participant d (a_id activity) email_arg = None"
    using select_participant_None [of d "a_id activity" email_arg] by blast
  with assms(1) show ?thesis
    by (simp add: unregister_from_activity_def)
qed

theorem unregister_not_signed_up_witness:
  "select_activity_by_name (seed_initial_activities empty_db) ''Chess Club'' =
     Some (hd (activities (seed_initial_activities empty_db))) \<and>
   ''zoe@mergington.edu'' \<notin>
     set (map email (select_participants (seed_initial_activities empty_db) 1)) \<and>
   unregister_from_activity (seed_initial_activities empty_db) ''Chess Club''
       ''zoe@mergington.edu'' =
     (Inl \<lparr>status_code = 400, detail = ''Student is not signed up for this activity''\<rparr>,
      seed_initial_activities empty_db)"
proof -
  have h: "''zoe@mergington.edu'' \<notin>
     set (map email (select_participants (seed_initial_activities empty_db)
       (a_id (hd (activities (seed_initial_activities empty_db))))))"
    by (simp add: seeded_chess_club_key seeded_chess_club_emails)
  from unregister_not_signed_up [OF seeded_chess_club h] h seeded_chess_club
  show ?thesis by (simp add: seeded_chess_club_key)
qed

text \<open>
  C7. When the named activity exists, the email is not among its participants and the
  number of its participants is below \<^verbatim>\<open>max_participants\<close>, signup returns its
  message, leaves the \<^verbatim>\<open>Activity\<close> table as it was, and appends to the
  \<^verbatim>\<open>Participant\<close> table exactly one row, which carries the key of the activity
  and the email under a key that no row had.
\<close>

theorem signup_inserts_one_row:
  assumes "select_activity_by_name d activity_name = Some activity"
    and "email_arg \<notin> set (map email (select_participants d (a_id activity)))"
    and "int (length (select_participants d (a_id activity))) < max_participants activity"
  shows "fst (signup_for_activity d activity_name email_arg) =
           Inr [(''message'', ''Signed up '' @ email_arg @ '' for '' @ activity_name)] \<and>
         activities (snd (signup_for_activity d activity_name email_arg)) = activities d \<and>
         participants (snd (signup_for_activity d activity_name email_arg)) =
           participants d @
             [\<lparr>p_id = next_rowid (map p_id (participants d)),
               activity_id = a_id activity, email = email_arg\<rparr>] \<and>
         next_rowid (map p_id (participants d)) \<notin> set (map p_id (participants d))"
  using assms next_rowid_fresh [of "map p_id (participants d)"]
  by (simp add: signup_success)

theorem signup_inserts_one_row_witness:
  "select_activity_by_name (seed_initial_activities empty_db) ''Chess Club'' =
     Some (hd (activities (seed_initial_activities empty_db))) \<and>
   ''zoe@mergington.edu'' \<notin>
     set (map email (select_participants (seed_initial_activities empty_db) 1)) \<and>
   length (select_participants (seed_initial_activities empty_db) 1) = 2 \<and>
   fst (signup_for_activity (seed_initial_activities empty_db) ''Chess Club''
         ''zoe@mergington.edu'') =
     Inr [(''message'', ''Signed up zoe@mergington.edu for Chess Club'')] \<and>
   participants (snd (signup_for_activity (seed_initial_activities empty_db) ''Chess Club''
         ''zoe@mergington.edu'')) =
     participants (seed_initial_activities empty_db) @
       [\<lparr>p_id = 19, activity_id = 1, email = ''zoe@mergington.edu''\<rparr>]"
proof -
  have h: "''zoe@mergington.edu'' \<notin>
     set (map email (select_participants (seed_initial_activities empty_db)
       (a_id (hd (activities (seed_initial_activities empty_db))))))"
    by (simp add: seeded_chess_club_key seeded_chess_club_emails)
  have n: "length (select_participants (seed_initial_activities empty_db) 1) = 2"
    using arg_cong [OF seeded_chess_club_emails, of length] by simp
  then have r: "int (length (select_participants (seed_initial_activities empty_db)
       (a_id (hd (activities (seed_initial_activities empty_db))))))
     < max_participants (hd (activities (seed_initial_activities empty_db)))"
    by (simp add: seeded_chess_club_key)
  have k: "next_rowid (map p_id (participants (seed_initial_activities empty_db))) = 19"
    by (simp add: seeded_db next_rowid_def)
  from signup_inserts_one_row [OF seeded_chess_club h r] h n seeded_chess_club
  show ?thesis by (simp add: seeded_chess_club_key k)
qed

text \<open>
  C8. When the named activity exists and the query for the activity and the email
  finds the row \<open>p\<close>, unregister returns its message, leaves the \<^verbatim>\<open>Activity\<close>
  table as it was and removes \<open>p\<close>, and only \<open>p\<close>, from the \<^verbatim>\<open>Participant\<close>
  table. The rows of the table have distinct keys, \<^verbatim>\<open>id\<close> being its primary key;
  the deletion is by key.
\<close>

theorem unregister_removes_one_row:
  assumes "select_activity_by_name d activity_name = Some activity"
    and "select_participant d (a_id activity) email_arg = Some p"
    and "distinct (map p_id (participants d))"
  shows "p \<in> set (participants d) \<and> activity_id p = a_id activity \<and> email p = email_arg \<and>
         fst (unregister_from_activity d activity_name email_arg) =
           Inr [(''message'', ''Unregistered '' @ email_arg @ '' from '' @ activity_name)] \<and>
         activities (snd (unregister_from_activity d activity_name email_arg)) = activities d \<and>
         participants (snd (unregister_from_activity d activity_name email_arg)) =
           remove1 p (participants d) \<and>
         p \<notin> set (participants (snd (unregister_from_activity d activity_name email_arg)))"
proof -
  from assms(2) have p: "p \<in> set (participants d)" "activity_id p = a_id activity" "email p = email_arg"
    using select_participant_Some by blast+
  from assms(3) have "distinct (participants d)" by (simp add: distinct_map)
  then have "p \<notin> set (remove1 p (participants d))" by simp
  moreover have "participants (snd (unregister_from_activity d activity_name email_arg)) =
      remove1 p (participants d)"
    using assms p(1) by (simp add: unregister_from_activity_def delete_participant_def filter_other_keys)
  moreover have "fst (unregister_from_activity d activity_name email_arg) =
           Inr [(''message'', ''Unregistered '' @ email_arg @ '' from '' @ activity_name)]"
    using assms by (simp add: unregister_from_activity_def)
  ultimately show ?thesis using p by simp
qed

theorem unregister_removes_one_row_witness:
  "select_activity_by_name (seed_initial_activities empty_db) ''Chess Club'' =
     Some (hd (activities (seed_initial_activities empty_db))) \<and>
   select_participant (seed_initial_activities empty_db) 1 ''daniel@mergington.edu'' =
     Some \<lparr>p_id = 2, activity_id = 1, email = ''daniel@mergington.edu''\<rparr> \<and>
   distinct (map p_id (participants (seed_initial_activities empty_db))) \<and>
   fst (unregister_from_activity (seed_initial_activities empty_db) ''Chess Club''
         ''daniel@mergington.edu'') =
     Inr [(''message'', ''Unregistered daniel@mergington.edu from Chess Club'')] \<and>
   participants (snd (unregister_from_activity (seed_initial_activities empty_db)
         ''Chess Club'' ''daniel@mergington.edu'')) =
     remove1 \<lparr>p_id = 2, activity_id = 1, email = ''daniel@mergington.edu''\<rparr>
       (participants (seed_initial_activities empty_db)) \<and>
   map p_id (participants (snd (unregister_from_activity (seed_initial_activities empty_db)
         ''Chess Club'' ''daniel@mergington.edu''))) =
     [1, 3, 4, 5, 6, 7, 8, 9, 10, 11, 12, 13, 14, 15, 16, 17, 18]"
proof -
  have p: "select_participant (seed_initial_activities empty_db)
       (a_id (hd (activities (seed_initial_activities empty_db)))) ''daniel@mergington.edu'' =
     Some \<lparr>p_id = 2, activity_id = 1, email = ''daniel@mergington.edu''\<rparr>"
    by (simp add: seeded_db select_participant_def)
  have k: "distinct (map p_id (participants (seed_initial_activities empty_db)))"
    by (simp add: seeded_db)
  have r: "map p_id (remove1 \<lparr>p_id = 2, activity_id = 1, email = ''daniel@mergington.edu''\<rparr>
       (participants (seed_initial_activities empty_db))) =
     [1, 3, 4, 5, 6, 7, 8, 9, 10, 11, 12, 13, 14, 15, 16, 17, 18]"
    by (simp add: seeded_db)
  from unregister_removes_one_row [OF seeded_chess_club p k] p k r seeded_chess_club
  show ?thesis by (simp add: seeded_chess_club_key)
qed

text \<open>
  C9. The seeder on the empty store leaves nine activities with two participants each
  (eighteen rows); on a database that has an activity it changes nothing, so a second
  run after the first still leaves nine activities.
\<close>

theorem seeder_runs_once:
  "length (activities (seed_initial_activities empty_db)) = 9 \<and>
   (\<forall>a\<in>set (activities (seed_initial_activities empty_db)).
      length (select_participants (seed_initial_activities empty_db) (a_id a)) = 2) \<and>
   length (participants (seed_initial_activities empty_db)) = 18 \<and>
   (activities d \<noteq> [] \<longrightarrow> seed_initial_activities d = d) \<and>
   length (activities (seed_initial_activities (seed_initial_activities empty_db))) = 9"
proof -
  have noop: "activities d' \<noteq> [] \<longrightarrow> seed_initial_activities d' = d'" for d'
    by (cases "activities d'") (simp_all add: seed_initial_activities_def)
  have nine: "length (activities (seed_initial_activities empty_db)) = 9"
    by (simp add: seeded_db)
  then have "activities (seed_initial_activities empty_db) \<noteq> []" by auto
  with noop have "seed_initial_activities (seed_initial_activities empty_db) =
      seed_initial_activities empty_db" by blast
  moreover have "\<forall>a\<in>set (activities (seed_initial_activities empty_db)).
      length (select_participants (seed_initial_activities empty_db) (a_id a)) = 2"
    by (simp add: seeded_db select_participants_def)
  moreover have "length (participants (seed_initial_activities empty_db)) = 18"
    by (simp add: seeded_db)
  ultimately show ?thesis using nine noop by simp
qed

theorem seeder_runs_once_witness:
  "length (activities (seed_initial_activities empty_db)) = 9 \<and>
   length (select_participants (seed_initial_activities empty_db) 1) = 2 \<and>
   length (participants (seed_initial_activities empty_db)) = 18 \<and>
   activities (seed_initial_activities empty_db) \<noteq> [] \<and>
   seed_initial_activities (seed_initial_activities empty_db) =
     seed_initial_activities empty_db \<and>
   length (activities (seed_initial_activities (seed_initial_activities empty_db))) = 9"
proof -
  note w = seeder_runs_once [of "seed_initial_activities empty_db"]
  have m: "hd (activities (seed_initial_activities empty_db)) \<in>
      set (activities (seed_initial_activities empty_db))"
    by (simp add: seeded_db)
  from w have "\<forall>a\<in>set (activities (seed_initial_activities empty_db)).
      length (select_participants (seed_initial_activities empty_db) (a_id a)) = 2"
    by (elim conjE)
  from this m have two: "length (select_participants (seed_initial_activities empty_db)
      (a_id (hd (activities (seed_initial_activities empty_db))))) = 2"
    by (rule bspec)
  have ne: "activities (seed_initial_activities empty_db) \<noteq> []"
    by (simp add: seeded_db)
  with w have "seed_initial_activities (seed_initial_activities empty_db) =
     seed_initial_activities empty_db" by blast
  with w two ne show ?thesis by (simp add: seeded_chess_club_key)
qed

text \<open>
  C10. After a signup that succeeds, the unregister with the same arguments succeeds
  and gives back the database the signup started from.
\<close>

theorem signup_then_unregister:
  assumes "fst (signup_for_activity d activity_name email_arg) = Inr r"
  shows "fst (unregister_from_activity (snd (signup_for_activity d activity_name email_arg))
                activity_name email_arg) =
           Inr [(''message'', ''Unregistered '' @ email_arg @ '' from '' @ activity_name)] \<and>
         snd (unregister_from_activity (snd (signup_for_activity d activity_name email_arg))
                activity_name email_arg) = d"
proof -
  let ?k = "next_rowid (map p_id (participants d))"
  from assms obtain a where a: "select_activity_by_name d activity_name = Some a"
    by (cases "select_activity_by_name d activity_name") (auto simp: signup_for_activity_def)
  let ?new = "\<lparr>p_id = ?k, activity_id = a_id a, email = email_arg\<rparr>"
  let ?d' = "d\<lparr>participants := participants d @ [?new]\<rparr>"
  from assms a have fresh: "email_arg \<notin> set (map email (select_participants d (a_id a)))"
    and room: "int (length (select_participants d (a_id a))) < max_participants a"
    by (auto simp: signup_for_activity_def Let_def split: if_splits)
  from a fresh room have d': "snd (signup_for_activity d activity_name email_arg) = ?d'"
    by (simp add: signup_success)
  have act: "select_activity_by_name ?d' activity_name = Some a"
    using a by (simp add: select_activity_by_name_def)
  from fresh have "find (\<lambda>p. activity_id p = a_id a \<and> email p = email_arg) (participants d) = None"
    using select_participant_None [of d "a_id a" email_arg] by (simp add: select_participant_def)
  then have row: "select_participant ?d' (a_id a) email_arg = Some ?new"
    by (simp add: select_participant_def find_snoc)
  have "\<forall>q\<in>set (participants d). p_id q \<noteq> ?k"
  proof
    fix q
    assume "q \<in> set (participants d)"
    then have "p_id q \<in> set (map p_id (participants d))" by simp
    then have "p_id q < ?k" by (rule next_rowid_above)
    then show "p_id q \<noteq> ?k" by simp
  qed
  then have "filter (\<lambda>q. p_id q \<noteq> ?k) (participants d) = participants d"
    by (simp add: filter_id_conv)
  then have "delete_participant ?d' ?new = d"
    by (simp add: delete_participant_def)
  with act row show ?thesis
    by (simp add: d' unregister_from_activity_def)
qed

theorem signup_then_unregister_witness:
  "fst (signup_for_activity (seed_initial_activities empty_db) ''Chess Club''
         ''zoe@mergington.edu'') =
     Inr [(''message'', ''Signed up zoe@mergington.edu for Chess Club'')] \<and>
   fst (unregister_from_activity
         (snd (signup_for_activity (seed_initial_activities empty_db) ''Chess Club''
            ''zoe@mergington.edu''))
         ''Chess Club'' ''zoe@mergington.edu'') =
     Inr [(''message'', ''Unregistered zoe@mergington.edu from Chess Club'')] \<and>
   snd (unregister_from_activity
         (snd (signup_for_activity (seed_initial_activities empty_db) ''Chess Club''
            ''zoe@mergington.edu''))
         ''Chess Club'' ''zoe@mergington.edu'') =
     seed_initial_activities empty_db"
proof -
  have s: "fst (signup_for_activity (seed_initial_activities empty_db) ''Chess Club''
         ''zoe@mergington.edu'') =
     Inr [(''message'', ''Signed up zoe@mergington.edu for Chess Club'')]"
    by (simp add: signup_success [OF seeded_chess_club] seeded_chess_club_key
        seeded_chess_club_emails seeded_chess_club_count)
  from signup_then_unregister [OF s] s show ?thesis by simp
qed

end
